theory Spec2Isabelle
  imports Main "HOL-Library.List_Lexorder" "HOL-Library.Char_ord"
begin

section \<open>codalab/common.py: error classes and HTTP codes\<close>

text \<open>
  The exception classes of \<^verbatim>\<open>codalab/common.py\<close>, together with the two built-in classes
  they derive from. \<open>mro\<close> lists a class followed by its ancestors, as the \<^verbatim>\<open>class\<close>
  statements of the module declare them (\<^verbatim>\<open>BaseException\<close> and \<^verbatim>\<open>object\<close> are left
  out: nothing in the module tests for them).
\<close>

datatype exn_class =
    Exception
  | ValueError
  | IntegrityError
  | PreconditionViolation
  | UsageError
  | NotFoundError
  | AuthorizationError
  | PermissionError
  | LoginPermissionError

fun mro :: "exn_class \<Rightarrow> exn_class list" where
  "mro Exception = [Exception]"
| "mro ValueError = [ValueError, Exception]"
| "mro IntegrityError = [IntegrityError, ValueError, Exception]"
| "mro PreconditionViolation = [PreconditionViolation, ValueError, Exception]"
| "mro UsageError = [UsageError, ValueError, Exception]"
| "mro NotFoundError = [NotFoundError, UsageError, ValueError, Exception]"
| "mro AuthorizationError = [AuthorizationError, UsageError, ValueError, Exception]"
| "mro PermissionError = [PermissionError, UsageError, ValueError, Exception]"
| "mro LoginPermissionError = [LoginPermissionError, ValueError, Exception]"

text \<open>
  An exception value: its class and the text \<^verbatim>\<open>str(e)\<close> returns, which for an exception
  built from one message is that message.
\<close>

datatype exn = Exn (exn_type: exn_class) (exn_str: string)

definition isinstance :: "exn \<Rightarrow> exn_class \<Rightarrow> bool" where
  "isinstance e t = (t \<in> set (mro (exn_type e)))"

text \<open>The constants of \<^verbatim>\<open>http.client\<close> that the module uses.\<close>

definition FORBIDDEN :: int where "FORBIDDEN = 403"
definition UNAUTHORIZED :: int where "UNAUTHORIZED = 401"
definition NOT_FOUND :: int where "NOT_FOUND = 404"
definition BAD_REQUEST :: int where "BAD_REQUEST = 400"
definition INTERNAL_SERVER_ERROR :: int where "INTERNAL_SERVER_ERROR = 500"

text \<open>Listed in order of most specific to least specific.\<close>

definition http_codes_and_exceptions :: "(int \<times> exn_class) list" where
  "http_codes_and_exceptions =
     [(FORBIDDEN, PermissionError),
      (UNAUTHORIZED, AuthorizationError),
      (NOT_FOUND, NotFoundError),
      (BAD_REQUEST, UsageError)]"

text \<open>
  Both functions walk the table and return at the first row that matches; that is
  \<open>find\<close>. The fall-through return follows the loop.
\<close>

definition exception_to_http_error :: "exn \<Rightarrow> int \<times> string" where
  "exception_to_http_error e =
     (case find (\<lambda>(known_code, exception_type). isinstance e exception_type)
             http_codes_and_exceptions of
        Some (known_code, exception_type) \<Rightarrow> (known_code, exn_str e)
      | None \<Rightarrow> (INTERNAL_SERVER_ERROR, exn_str e))"

definition http_error_to_exception :: "int \<Rightarrow> string \<Rightarrow> exn" where
  "http_error_to_exception code message =
     (case find (\<lambda>(known_code, exception_type). code = known_code)
             http_codes_and_exceptions of
        Some (known_code, exception_type) \<Rightarrow> Exn exception_type message
      | None \<Rightarrow>
          if code \<ge> 400 \<and> code < 500 then Exn UsageError message
          else Exn Exception message)"

section \<open>codalab/common.py: parsing a linked bundle URL\<close>

datatype StorageType = FILE_STORAGE | AZURE_BLOB_STORAGE

text \<open>
  The frozen dataclass. \<open>zip_subpath\<close> and \<open>bundle_uuid\<close> are annotated \<^verbatim>\<open>str\<close> in the
  source but hold \<^verbatim>\<open>None\<close> on some paths, so they are options here.
\<close>

record LinkedBundlePath =
  storage_type :: StorageType
  bundle_path :: string
  is_zip :: bool
  uses_beam :: bool
  zip_subpath :: "string option"
  bundle_uuid :: "string option"

text \<open>\<^verbatim>\<open>s.startswith(p)\<close> and \<^verbatim>\<open>s.endswith(p)\<close>.\<close>

definition startswith :: "string \<Rightarrow> string \<Rightarrow> bool" where
  "startswith s p = (take (length p) s = p)"

definition endswith :: "string \<Rightarrow> string \<Rightarrow> bool" where
  "endswith s p = (length p \<le> length s \<and> drop (length s - length p) s = p)"

text \<open>
  \<^verbatim>\<open>s.split(sep, maxsplit)\<close> for a one-character separator: at most \<open>maxsplit\<close> cuts, from
  the left; what follows the last cut is kept whole, separators included.
\<close>

fun str_split :: "char \<Rightarrow> nat \<Rightarrow> string \<Rightarrow> string list" where
  "str_split sep 0 s = [s]"
| "str_split sep (Suc n) s =
     (if sep \<in> set s
      then takeWhile (\<lambda>c. c \<noteq> sep) s # str_split sep n (tl (dropWhile (\<lambda>c. c \<noteq> sep) s))
      else [s])"

text \<open>
  The target list \<^verbatim>\<open>a, b, c, d, *remainder = parts\<close> needs four values or more. With
  fewer, the interpreter raises \<^verbatim>\<open>ValueError\<close> with the text below; \<open>got\<close> is between
  one and three there, since a split yields at least one part.
\<close>

definition unpack_error :: "nat \<Rightarrow> exn" where
  "unpack_error got =
     Exn ValueError
       (''not enough values to unpack (expected at least 4, got ''
          @ [''0123456789'' ! got] @ '')'')"

definition parse_linked_bundle_url :: "string \<Rightarrow> exn + LinkedBundlePath" where
  "parse_linked_bundle_url url =
     (if startswith url ''azfs://'' then
        (case str_split (CHR ''/'') 4 (drop (length ''azfs://'') url) of
           storage_account # container # bundle_uuid' # contents_file # remainder \<Rightarrow>
             (let is_zip' = endswith contents_file ''.zip'' in
              Inr \<lparr> storage_type = AZURE_BLOB_STORAGE,
                    bundle_path = ''azfs://'' @ storage_account @ ''/'' @ container @ ''/''
                                    @ bundle_uuid' @ ''/'' @ contents_file,
                    is_zip = is_zip',
                    uses_beam = True,
                    zip_subpath = (if is_zip' \<and> length remainder \<noteq> 0
                                   then Some (hd remainder) else None),
                    bundle_uuid = Some bundle_uuid' \<rparr>)
         | parts \<Rightarrow> Inl (unpack_error (length parts)))
      else
        Inr \<lparr> storage_type = FILE_STORAGE,
              bundle_path = url,
              is_zip = False,
              uses_beam = False,
              zip_subpath = None,
              bundle_uuid = None \<rparr>)"

text \<open>The number of separators in a string: one less than the number of its segments.\<close>

definition count_sep :: "char \<Rightarrow> string \<Rightarrow> nat" where
  "count_sep sep s = length (filter (\<lambda>c. c = sep) s)"

section \<open>Target resolution inside an archive-backed bundle\<close>

text \<open>
  \<^verbatim>\<open>get_target_info\<close> and \<^verbatim>\<open>BundleTarget\<close> live in \<^verbatim>\<open>codalab/worker/download_util.py\<close>,
  which is not among the sources; only its test,
  \<^verbatim>\<open>tests/unit/worker/download_util_test.py\<close>, is. Every definition of this section is
  therefore modelled from the specification (sections 3, 4.2, 4.3, 4.4 and 7: ArchiveIndexer,
  TargetResolver, TreeSerializer, for a bundle stored as one archive object) and says so.
  Decoding the archive's bytes is the storage adapter's work: the indexer starts from the
  members the decoder yields, in physical order.
\<close>

text \<open>
  Modelled from the spec: the kind of an archive entry and of a resolved node
  (\<^verbatim>\<open>download_util.py\<close> is missing): ``kind \<open>\<in>\<close> {File, Directory}''.
\<close>

datatype Kind = File | Directory

text \<open>
  Modelled from the spec: the error kinds of section 7 (\<^verbatim>\<open>download_util.py\<close> is missing).
  Resolution inside an archive raises \<open>NotFound\<close> only.
\<close>

datatype error =
    MalformedLocator
  | UnsupportedArchiveFormat
  | CorruptArchive
  | NotFound
  | TransientIO

text \<open>
  Modelled from the spec: the default mode of an entry whose archive records none,
  0644 (\<^verbatim>\<open>download_util.py\<close> is missing).
\<close>

definition DEFAULT_MODE :: nat where "DEFAULT_MODE = 420"

text \<open>
  Modelled from the spec: the fixed full-access sentinel reported as the mode of the root
  of an archive-backed bundle, 0777 (\<^verbatim>\<open>download_util.py\<close> is missing).
\<close>

definition FULL_ACCESS :: nat where "FULL_ACCESS = 511"

text \<open>
  Modelled from the spec: one member of the archive as it is physically written, the input
  of the ArchiveIndexer (\<^verbatim>\<open>download_util.py\<close> is missing): the path as the archive spells
  it, the kind, the size in bytes and the permission bits if the archive has them.
\<close>

record archive_member =
  member_path :: string
  member_kind :: Kind
  member_size :: nat
  member_mode :: "nat option"

text \<open>
  Modelled from the spec: the stored archive object as the remote reader gives it
  (\<^verbatim>\<open>download_util.py\<close> is missing): its byte length (\<^verbatim>\<open>size()\<close> of the opened stream) and
  its members in physical order.
\<close>

record archive_object =
  byte_length :: nat
  members :: "archive_member list"

text \<open>
  Modelled from the spec: ArchiveEntry (\<^verbatim>\<open>download_util.py\<close> is missing). The path is
  normalized and held as its segments; \<open>sequence_index\<close> is the position at which the
  entry entered the index.
\<close>

record ArchiveEntry =
  entry_path :: "string list"
  entry_kind :: Kind
  entry_size :: nat
  entry_mode :: nat
  sequence_index :: nat

text \<open>
  Modelled from the spec: the path normalization of the ArchiveIndexer
  (\<^verbatim>\<open>download_util.py\<close> is missing): ``normalize each path (strip leading "./", collapse
  empty segments)''.
\<close>

definition normalize_path :: "string \<Rightarrow> string list" where
  "normalize_path p =
     (let q = (if startswith p ''./'' then drop (length ''./'') p else p)
      in filter (\<lambda>seg. seg \<noteq> []) (str_split (CHR ''/'') (length q) q))"

text \<open>
  Modelled from the spec: whether the index already holds a directory at a path, the test
  behind ``skip duplicate directory entries'' and ``ensure every proper path-prefix
  directory already exists in the index'' (\<^verbatim>\<open>download_util.py\<close> is missing).
\<close>

definition has_directory :: "ArchiveEntry list \<Rightarrow> string list \<Rightarrow> bool" where
  "has_directory idx p = (\<exists>e \<in> set idx. entry_path e = p \<and> entry_kind e = Directory)"

text \<open>
  Modelled from the spec: a synthesized directory entry (\<^verbatim>\<open>download_util.py\<close> is missing):
  ``a synthesized entry gets size 0, default mode''.
\<close>

definition synthesized :: "string list \<Rightarrow> nat \<Rightarrow> ArchiveEntry" where
  "synthesized p n =
     \<lparr> entry_path = p, entry_kind = Directory, entry_size = 0, entry_mode = DEFAULT_MODE,
       sequence_index = n \<rparr>"

text \<open>
  Modelled from the spec: directory synthesis (\<^verbatim>\<open>download_util.py\<close> is missing). Each of
  the given paths, in turn, gets a synthesized directory at the end of the index unless the
  index holds a directory there: ``synthesizing any missing ones at first need''.
\<close>

fun ensure_directories :: "ArchiveEntry list \<Rightarrow> string list list \<Rightarrow> ArchiveEntry list" where
  "ensure_directories idx [] = idx"
| "ensure_directories idx (p # ps) =
     ensure_directories
       (if has_directory idx p then idx else idx @ [synthesized p (length idx)]) ps"

text \<open>
  Modelled from the spec: the proper path prefixes of a path, shortest first
  (\<^verbatim>\<open>download_util.py\<close> is missing). The empty prefix is the bundle root and has no entry.
\<close>

definition proper_prefixes :: "string list \<Rightarrow> string list list" where
  "proper_prefixes p = map (\<lambda>n. take n p) [1..<length p]"

text \<open>
  Modelled from the spec: the entry of an explicit member (\<^verbatim>\<open>download_util.py\<close> is
  missing): size and mode as the archive records them, the default mode if it records
  none, and size 0 for a directory.
\<close>

definition member_entry :: "archive_member \<Rightarrow> nat \<Rightarrow> ArchiveEntry" where
  "member_entry m n =
     \<lparr> entry_path = normalize_path (member_path m),
       entry_kind = member_kind m,
       entry_size = (if member_kind m = Directory then 0 else member_size m),
       entry_mode = (case member_mode m of None \<Rightarrow> DEFAULT_MODE | Some bits \<Rightarrow> bits),
       sequence_index = n \<rparr>"

text \<open>
  Modelled from the spec: one step of the ArchiveIndexer (\<^verbatim>\<open>download_util.py\<close> is
  missing). A directory member whose directory the index already holds is skipped.
  Otherwise every proper prefix of the member's path is ensured first, then the member's
  own entry is appended. Prefixes are ensured for directory members as for files, since the
  index holds a directory ``for every path prefix implied by a file or explicit
  directory''.
\<close>

definition add_member :: "ArchiveEntry list \<Rightarrow> archive_member \<Rightarrow> ArchiveEntry list" where
  "add_member idx m =
     (let p = normalize_path (member_path m) in
      if member_kind m = Directory \<and> has_directory idx p then idx
      else (let idx' = ensure_directories idx (proper_prefixes p)
            in idx' @ [member_entry m (length idx')]))"

text \<open>
  Modelled from the spec: the ArchiveIndexer (\<^verbatim>\<open>download_util.py\<close> is missing): ``walk
  entries in physical order'', from the empty index.
\<close>

definition build_index :: "archive_member list \<Rightarrow> ArchiveEntry list" where
  "build_index ms = foldl add_member [] ms"

text \<open>
  Modelled from the spec: BundleTarget (\<^verbatim>\<open>download_util.py\<close> is missing): a bundle id and
  a relative subpath, slash separated, already normalized, empty for the bundle root.
\<close>

record BundleTarget =
  bundle_id :: string
  relative_subpath :: string

text \<open>
  Modelled from the spec: the segments of a relative subpath (\<^verbatim>\<open>download_util.py\<close> is
  missing); none for the empty subpath.
\<close>

definition target_path :: "string \<Rightarrow> string list" where
  "target_path subpath =
     (if subpath = [] then [] else str_split (CHR ''/'') (length subpath) subpath)"

text \<open>
  Modelled from the spec: a resolved node, the output of the TargetResolver
  (\<^verbatim>\<open>download_util.py\<close> is missing): its locator (the path inside the bundle, empty for the
  root), kind, size and mode, and the name it is shown under.
\<close>

record node =
  locator :: "string list"
  node_name :: string
  node_kind :: Kind
  node_size :: nat
  node_mode :: nat

text \<open>
  Modelled from the spec: the node of the bundle root (\<^verbatim>\<open>download_util.py\<close> is missing):
  the archive object itself, a directory whose size is the byte length of the stored
  object and whose mode is the full-access sentinel. Its name is the bundle id, as the
  test expects.
\<close>

definition root_node :: "archive_object \<Rightarrow> BundleTarget \<Rightarrow> node" where
  "root_node obj target =
     \<lparr> locator = [], node_name = bundle_id target, node_kind = Directory,
       node_size = byte_length obj, node_mode = FULL_ACCESS \<rparr>"

text \<open>
  Modelled from the spec: the node of an in-archive entry (\<^verbatim>\<open>download_util.py\<close> is
  missing): kind, size and mode verbatim from the entry, the name its last segment.
\<close>

definition entry_node :: "ArchiveEntry \<Rightarrow> node" where
  "entry_node e =
     \<lparr> locator = entry_path e,
       node_name = (if entry_path e = [] then [] else last (entry_path e)),
       node_kind = entry_kind e, node_size = entry_size e, node_mode = entry_mode e \<rparr>"

text \<open>
  Modelled from the spec: the TargetResolver on an archive-backed bundle
  (\<^verbatim>\<open>download_util.py\<close> is missing). The empty subpath resolves to the archive object
  itself, never to an in-archive entry; any other subpath is looked up by exact match of
  its segments, and absence is \<open>NotFound\<close>.
\<close>

definition resolve :: "archive_object \<Rightarrow> ArchiveEntry list \<Rightarrow> BundleTarget \<Rightarrow> error + node" where
  "resolve obj idx target =
     (if relative_subpath target = [] then Inr (root_node obj target)
      else (case find (\<lambda>e. entry_path e = target_path (relative_subpath target)) idx of
              None \<Rightarrow> Inl NotFound
            | Some e \<Rightarrow> Inr (entry_node e)))"

text \<open>
  Modelled from the spec: the ordered list of the immediate children of a node, one level
  (\<^verbatim>\<open>download_util.py\<close> is missing): the entries directly below its locator, in index
  order.
\<close>

definition children_of :: "ArchiveEntry list \<Rightarrow> node \<Rightarrow> node list" where
  "children_of idx n =
     map entry_node
       (filter (\<lambda>e. entry_path e \<noteq> [] \<and> butlast (entry_path e) = locator n) idx)"

text \<open>
  Modelled from the spec: TargetInfo (\<^verbatim>\<open>download_util.py\<close> is missing). The fields are
  the keys of the dictionary the test compares (\<^verbatim>\<open>name\<close>, \<^verbatim>\<open>type\<close>, \<^verbatim>\<open>size\<close>, \<^verbatim>\<open>perm\<close>,
  \<^verbatim>\<open>contents\<close>); an absent \<^verbatim>\<open>contents\<close> key is \<open>None\<close>. The diagnostic
  \<^verbatim>\<open>resolved_target\<close>, which the test removes before comparing and whose value the spec
  leaves open, is left out.
\<close>

datatype TargetInfo =
  TargetInfo (name: string) (type: Kind) (size_bytes: nat) (perm: nat)
    (contents: "TargetInfo list option")

text \<open>
  Modelled from the spec: the TreeSerializer (\<^verbatim>\<open>download_util.py\<close> is missing). Depth 0
  gives the metadata alone; a positive depth on a directory adds its children, each
  serialized with one level less; a file never has contents. The depth is a budget of
  levels, a natural number.
\<close>

fun serialize :: "ArchiveEntry list \<Rightarrow> nat \<Rightarrow> node \<Rightarrow> TargetInfo" where
  "serialize idx 0 n =
     TargetInfo (node_name n) (node_kind n) (node_size n) (node_mode n) None"
| "serialize idx (Suc depth) n =
     TargetInfo (node_name n) (node_kind n) (node_size n) (node_mode n)
       (if node_kind n = Directory
        then Some (map (serialize idx depth) (children_of idx n))
        else None)"

text \<open>
  Modelled from the spec: \<^verbatim>\<open>get_target_info\<close> on an archive-backed bundle
  (\<^verbatim>\<open>download_util.py\<close> is missing), the pipeline of one request: index the archive,
  resolve the target, serialize the node; a failure of the resolver is the result.
\<close>

definition get_target_info :: "archive_object \<Rightarrow> BundleTarget \<Rightarrow> nat \<Rightarrow> error + TargetInfo" where
  "get_target_info obj target depth =
     (let idx = build_index (members obj) in
      case resolve obj idx target of
        Inl err \<Rightarrow> Inl err
      | Inr n \<Rightarrow> Inr (serialize idx depth n))"

section \<open>The archive of the test, and the order of first appearance\<close>

text \<open>
  The archive of \<^verbatim>\<open>test_nested_directories\<close>: 246 bytes, seven members written in this
  order, each with the mode \<^verbatim>\<open>tarfile.TarInfo\<close> starts with (0644).
\<close>

definition nested_directories :: archive_object where
  "nested_directories =
     \<lparr> byte_length = 246,
       members =
         [\<lparr> member_path = ''./README.md'', member_kind = File, member_size = 11,
            member_mode = Some 420 \<rparr>,
          \<lparr> member_path = ''./src'', member_kind = Directory, member_size = 0,
            member_mode = Some 420 \<rparr>,
          \<lparr> member_path = ''./src/test.sh'', member_kind = File, member_size = 7,
            member_mode = Some 420 \<rparr>,
          \<lparr> member_path = ''./dist'', member_kind = Directory, member_size = 0,
            member_mode = Some 420 \<rparr>,
          \<lparr> member_path = ''./dist/a'', member_kind = Directory, member_size = 0,
            member_mode = Some 420 \<rparr>,
          \<lparr> member_path = ''./dist/a/b'', member_kind = Directory, member_size = 0,
            member_mode = Some 420 \<rparr>,
          \<lparr> member_path = ''./dist/a/b/test2.sh'', member_kind = File, member_size = 8,
            member_mode = Some 420 \<rparr>] \<rparr>"









section \<open>Properties of the parser\<close>

subsection \<open>Splitting\<close>

lemma count_sep_split:
  "sep \<in> set s \<Longrightarrow>
     count_sep sep s = Suc (count_sep sep (tl (dropWhile (\<lambda>c. c \<noteq> sep) s)))"
  by (induction s) (auto simp: count_sep_def)

lemma length_str_split: "length (str_split sep n s) = Suc (min n (count_sep sep s))"
proof (induction n arbitrary: s)
  case 0
  show ?case by simp
next
  case (Suc n)
  show ?case
  proof (cases "sep \<in> set s")
    case True
    then show ?thesis using Suc.IH count_sep_split[OF True] by simp
  next
    case False
    then have "count_sep sep s = 0" by (auto simp: count_sep_def filter_empty_conv)
    with False show ?thesis by simp
  qed
qed

lemma str_split_cut:
  "sep \<notin> set a \<Longrightarrow> str_split sep (Suc n) (a @ sep # rest) = a # str_split sep n rest"
  by (induction a) auto

lemma str_split_whole: "sep \<notin> set a \<Longrightarrow> str_split sep n a = [a]"
  by (cases n) auto

subsection \<open>Remote locators with all four segments\<close>

lemma parse_remote_bare:
  assumes "CHR ''/'' \<notin> set account" "CHR ''/'' \<notin> set container"
          "CHR ''/'' \<notin> set uuid" "CHR ''/'' \<notin> set object"
  shows "parse_linked_bundle_url
           (''azfs://'' @ account @ ''/'' @ container @ ''/'' @ uuid @ ''/'' @ object) =
         Inr \<lparr> storage_type = AZURE_BLOB_STORAGE,
               bundle_path =
                 ''azfs://'' @ account @ ''/'' @ container @ ''/'' @ uuid @ ''/'' @ object,
               is_zip = endswith object ''.zip'', uses_beam = True, zip_subpath = None,
               bundle_uuid = Some uuid \<rparr>"
proof -
  have four: "(4::nat) = Suc (Suc (Suc (Suc 0)))" by simp
  have "str_split (CHR ''/'') 4 (account @ ''/'' @ container @ ''/'' @ uuid @ ''/'' @ object)
          = [account, container, uuid, object]"
    unfolding four using assms
    by (simp add: str_split_cut str_split_whole del: str_split.simps(2))
  then show ?thesis
    by (simp add: parse_linked_bundle_url_def startswith_def)
qed

lemma parse_remote_trailing:
  assumes "CHR ''/'' \<notin> set account" "CHR ''/'' \<notin> set container"
          "CHR ''/'' \<notin> set uuid" "CHR ''/'' \<notin> set object"
  shows "parse_linked_bundle_url
           (''azfs://'' @ account @ ''/'' @ container @ ''/'' @ uuid @ ''/'' @ object
              @ ''/'' @ inner) =
         Inr \<lparr> storage_type = AZURE_BLOB_STORAGE,
               bundle_path =
                 ''azfs://'' @ account @ ''/'' @ container @ ''/'' @ uuid @ ''/'' @ object,
               is_zip = endswith object ''.zip'', uses_beam = True,
               zip_subpath = (if endswith object ''.zip'' then Some inner else None),
               bundle_uuid = Some uuid \<rparr>"
proof -
  have four: "(4::nat) = Suc (Suc (Suc (Suc 0)))" by simp
  have "str_split (CHR ''/'') 4
          (account @ ''/'' @ container @ ''/'' @ uuid @ ''/'' @ object @ ''/'' @ inner)
          = [account, container, uuid, object, inner]"
    unfolding four using assms
    by (simp add: str_split_cut del: str_split.simps(2))
  then show ?thesis
    by (simp add: parse_linked_bundle_url_def startswith_def)
qed

lemma count_sep_cut:
  assumes "Suc k \<le> count_sep sep t"
  shows "\<exists>a r. t = a @ sep # r \<and> sep \<notin> set a \<and> k \<le> count_sep sep r"
proof -
  have "sep \<in> set t"
  proof (rule ccontr)
    assume "sep \<notin> set t"
    then have "count_sep sep t = 0" by (auto simp: count_sep_def filter_empty_conv)
    with assms show False by simp
  qed
  then obtain a r where ar: "t = a @ sep # r" "sep \<notin> set a"
    by (meson split_list_first)
  then have "filter (\<lambda>c. c = sep) a = []" by (auto simp: filter_empty_conv)
  with ar(1) have "count_sep sep t = Suc (count_sep sep r)" by (simp add: count_sep_def)
  with assms ar show ?thesis by auto
qed

lemma four_segments_decompose:
  assumes "3 \<le> count_sep (CHR ''/'') s"
  shows "\<exists>account container uuid object trailing.
           s = account @ ''/'' @ container @ ''/'' @ uuid @ ''/'' @ object
                 @ (case trailing of None \<Rightarrow> [] | Some inner \<Rightarrow> ''/'' @ inner)
         \<and> CHR ''/'' \<notin> set account \<and> CHR ''/'' \<notin> set container
         \<and> CHR ''/'' \<notin> set uuid \<and> CHR ''/'' \<notin> set object"
proof -
  from assms have "Suc 2 \<le> count_sep (CHR ''/'') s" by simp
  from count_sep_cut[OF this] obtain a r1 where
    a: "s = a @ CHR ''/'' # r1" "CHR ''/'' \<notin> set a" "2 \<le> count_sep (CHR ''/'') r1" by blast
  from a(3) have "Suc 1 \<le> count_sep (CHR ''/'') r1" by simp
  from count_sep_cut[OF this] obtain b r2 where
    b: "r1 = b @ CHR ''/'' # r2" "CHR ''/'' \<notin> set b" "1 \<le> count_sep (CHR ''/'') r2" by blast
  from b(3) have "Suc 0 \<le> count_sep (CHR ''/'') r2" by simp
  from count_sep_cut[OF this] obtain c r3 where
    c: "r2 = c @ CHR ''/'' # r3" "CHR ''/'' \<notin> set c" by blast
  have "\<exists>d trailing. r3 = d @ (case trailing of None \<Rightarrow> [] | Some inner \<Rightarrow> ''/'' @ inner)
          \<and> CHR ''/'' \<notin> set d"
  proof (cases "CHR ''/'' \<in> set r3")
    case True
    then obtain d inner where "r3 = d @ CHR ''/'' # inner" "CHR ''/'' \<notin> set d"
      by (meson split_list_first)
    then show ?thesis by (intro exI[of _ d] exI[of _ "Some inner"]) simp
  next
    case False
    then show ?thesis by (intro exI[of _ r3] exI[of _ None]) simp
  qed
  then obtain d trailing where
    d: "r3 = d @ (case trailing of None \<Rightarrow> [] | Some inner \<Rightarrow> ''/'' @ inner)"
       "CHR ''/'' \<notin> set d" by blast
  have "s = a @ ''/'' @ b @ ''/'' @ c @ ''/'' @ d
              @ (case trailing of None \<Rightarrow> [] | Some inner \<Rightarrow> ''/'' @ inner)"
    unfolding a(1) b(1) c(1) using d(1) by simp
  with a(2) b(2) c(2) d(2) show ?thesis by blast
qed

lemma startswith_split: "startswith url p \<Longrightarrow> url = p @ drop (length p) url"
  unfolding startswith_def by (metis append_take_drop_id)

lemma parse_remote_optional:
  assumes "CHR ''/'' \<notin> set account" "CHR ''/'' \<notin> set container"
          "CHR ''/'' \<notin> set uuid" "CHR ''/'' \<notin> set object"
  shows "parse_linked_bundle_url
           (''azfs://'' @ account @ ''/'' @ container @ ''/'' @ uuid @ ''/'' @ object
              @ (case trailing of None \<Rightarrow> [] | Some inner \<Rightarrow> ''/'' @ inner)) =
         Inr \<lparr> storage_type = AZURE_BLOB_STORAGE,
               bundle_path =
                 ''azfs://'' @ account @ ''/'' @ container @ ''/'' @ uuid @ ''/'' @ object,
               is_zip = endswith object ''.zip'', uses_beam = True,
               zip_subpath = (if endswith object ''.zip'' then trailing else None),
               bundle_uuid = Some uuid \<rparr>"
proof (cases trailing)
  case None
  then show ?thesis using parse_remote_bare[OF assms] by simp
next
  case (Some inner)
  then show ?thesis using parse_remote_trailing[OF assms, of inner] by simp
qed

subsection \<open>The claims about the parser\<close>

text \<open>
  C7. A locator that does not begin with \<^verbatim>\<open>azfs://\<close> parses to a local descriptor:
  file storage, the path equal to the input unchanged, not a zip, no Beam, no subpath
  inside an archive and no bundle id.
\<close>

theorem parse_local:
  assumes "\<not> startswith url ''azfs://''"
  shows "parse_linked_bundle_url url =
           Inr \<lparr> storage_type = FILE_STORAGE, bundle_path = url, is_zip = False,
                 uses_beam = False, zip_subpath = None, bundle_uuid = None \<rparr>"
  using assms by (simp add: parse_linked_bundle_url_def)

theorem parse_local_witness:
  "\<not> startswith ''/home/codalab/bundles/0x1234'' ''azfs://'' \<and>
   parse_linked_bundle_url ''/home/codalab/bundles/0x1234'' =
     Inr \<lparr> storage_type = FILE_STORAGE, bundle_path = ''/home/codalab/bundles/0x1234'',
           is_zip = False, uses_beam = False, zip_subpath = None, bundle_uuid = None \<rparr>"
proof -
  have h: "\<not> startswith ''/home/codalab/bundles/0x1234'' ''azfs://''"
    by (simp add: startswith_def)
  show ?thesis using h parse_local [OF h] by simp
qed

text \<open>
  C2. The claim asks that an object name ending in \<^verbatim>\<open>.zip\<close> or in \<^verbatim>\<open>.tar.gz\<close> be
  classified as an archive. The parser tests for \<^verbatim>\<open>.zip\<close> alone
  (\<^verbatim>\<open>contents_file.endswith(".zip")\<close>), so the locator that
  \<^verbatim>\<open>test_nested_directories\<close> writes its archive to, with object name
  \<^verbatim>\<open>contents.tar.gz\<close>, parses with \<open>is_zip = False\<close>. This evaluates the parser there.
\<close>

theorem tar_gz_parsed_as_plain_object:
  "parse_linked_bundle_url ''azfs://storageclwsdev0/bundles/0x1234/contents.tar.gz'' =
     Inr \<lparr> storage_type = AZURE_BLOB_STORAGE,
           bundle_path = ''azfs://storageclwsdev0/bundles/0x1234/contents.tar.gz'',
           is_zip = False, uses_beam = True, zip_subpath = None,
           bundle_uuid = Some ''0x1234'' \<rparr>"
  by (simp add: parse_linked_bundle_url_def startswith_def endswith_def numeral_eq_Suc)

text \<open>
  C3, as stated, fails. The claim asks for a dedicated malformed-locator error. The module
  declares no such class, and the parser checks nothing before unpacking: with two segments
  after the scheme the unpacking raises the built-in \<^verbatim>\<open>ValueError\<close>, which is not a
  \<open>UsageError\<close> and which \<open>exception_to_http_error\<close> leaves unclassified (code 500).
\<close>

theorem short_remote_locator_counterexample:
  "parse_linked_bundle_url ''azfs://storageclwsdev0/bundles'' =
     Inl (Exn ValueError ''not enough values to unpack (expected at least 4, got 2)'')
   \<and> \<not> isinstance (Exn ValueError ''not enough values to unpack (expected at least 4, got 2)'')
         UsageError
   \<and> exception_to_http_error
       (Exn ValueError ''not enough values to unpack (expected at least 4, got 2)'') =
     (INTERNAL_SERVER_ERROR, ''not enough values to unpack (expected at least 4, got 2)'')"
  by (simp add: parse_linked_bundle_url_def startswith_def unpack_error_def
      isinstance_def exception_to_http_error_def http_codes_and_exceptions_def
      numeral_eq_Suc)

text \<open>
  C3, amended. A locator that begins with \<^verbatim>\<open>azfs://\<close> and has fewer than three slashes
  after the scheme (fewer than four segments) makes the parser fail: no descriptor is
  returned, and the failure is the built-in \<^verbatim>\<open>ValueError\<close> of the tuple unpacking, whose
  text gives the number of segments found and which \<open>exception_to_http_error\<close> maps to
  the internal-server-error code.
\<close>

theorem short_remote_locator_raises_ValueError:
  assumes "startswith url ''azfs://''"
    and "count_sep (CHR ''/'') (drop (length ''azfs://'') url) < 3"
  shows "\<exists>e. parse_linked_bundle_url url = Inl e
             \<and> e = unpack_error (Suc (count_sep (CHR ''/'') (drop (length ''azfs://'') url)))
             \<and> exn_type e = ValueError
             \<and> exception_to_http_error e = (INTERNAL_SERVER_ERROR, exn_str e)"
proof -
  have len: "length (str_split (CHR ''/'') 4 (drop (length ''azfs://'') url)) =
               Suc (count_sep (CHR ''/'') (drop (length ''azfs://'') url))"
    using assms(2) unfolding length_str_split by simp
  have "parse_linked_bundle_url url =
          Inl (unpack_error (Suc (count_sep (CHR ''/'') (drop (length ''azfs://'') url))))"
    using assms len
    by (auto simp: parse_linked_bundle_url_def split: list.splits)
  moreover have "exn_type (unpack_error n) = ValueError" for n
    by (simp add: unpack_error_def)
  moreover have "exception_to_http_error (unpack_error n) =
                   (INTERNAL_SERVER_ERROR, exn_str (unpack_error n))" for n
    by (simp add: unpack_error_def exception_to_http_error_def isinstance_def
        http_codes_and_exceptions_def)
  ultimately show ?thesis by simp
qed

theorem short_remote_locator_raises_ValueError_witness:
  "startswith ''azfs://storageclwsdev0/bundles/0x1234'' ''azfs://'' \<and>
   count_sep (CHR ''/'') (drop (length ''azfs://'') ''azfs://storageclwsdev0/bundles/0x1234'') < 3 \<and>
   parse_linked_bundle_url ''azfs://storageclwsdev0/bundles/0x1234'' =
     Inl (Exn ValueError ''not enough values to unpack (expected at least 4, got 3)'')"
proof -
  have h1: "startswith ''azfs://storageclwsdev0/bundles/0x1234'' ''azfs://''"
    by (simp add: startswith_def)
  have h2: "count_sep (CHR ''/'')
              (drop (length ''azfs://'') ''azfs://storageclwsdev0/bundles/0x1234'') < 3"
    by (simp add: count_sep_def)
  have n: "count_sep (CHR ''/'')
              (drop (length ''azfs://'') ''azfs://storageclwsdev0/bundles/0x1234'') = 2"
    by (simp add: count_sep_def)
  have m: "unpack_error (Suc 2) =
             Exn ValueError ''not enough values to unpack (expected at least 4, got 3)''"
    by (simp add: unpack_error_def)
  show ?thesis
    using h1 h2 short_remote_locator_raises_ValueError [OF h1 h2] unfolding n m by simp
qed

text \<open>
  C8, as stated, fails in its second half. The claim has the trailing internal-path
  segments retained as a hint. The parser keeps them only for a zip
  (\<^verbatim>\<open>remainder[0] if is_zip and len(remainder) else None\<close>): for the plain object
  \<^verbatim>\<open>contents\<close> the trailing segment \<^verbatim>\<open>file1\<close> reaches no field of the descriptor.
\<close>

theorem trailing_path_dropped_counterexample:
  "parse_linked_bundle_url ''azfs://storageclwsdev0/bundles/0x1234/contents/file1'' =
     Inr \<lparr> storage_type = AZURE_BLOB_STORAGE,
           bundle_path = ''azfs://storageclwsdev0/bundles/0x1234/contents'',
           is_zip = False, uses_beam = True, zip_subpath = None,
           bundle_uuid = Some ''0x1234'' \<rparr>"
  by (simp add: parse_linked_bundle_url_def startswith_def endswith_def numeral_eq_Suc)

text \<open>
  C8, amended. A locator that begins with \<^verbatim>\<open>azfs://\<close> and has at least three slashes
  after the scheme is made of four segments without a slash (account, container, bundle
  id, object name) and an optional trailing internal path. Parsing it succeeds, and
  \<open>bundle_path\<close> is the scheme followed by exactly those four segments. The trailing path
  is no part of it: parsing \<open>bundle_path\<close> alone gives the same descriptor up to
  \<open>zip_subpath\<close>. The trailing path is retained, whole, in \<open>zip_subpath\<close> when the
  descriptor is a zip, and dropped otherwise.
\<close>

theorem bundle_path_first_four_segments:
  assumes "startswith url ''azfs://''"
    and "3 \<le> count_sep (CHR ''/'') (drop (length ''azfs://'') url)"
  shows "\<exists>account container uuid object trailing lbp.
           url = ''azfs://'' @ account @ ''/'' @ container @ ''/'' @ uuid @ ''/'' @ object
                   @ (case trailing of None \<Rightarrow> [] | Some inner \<Rightarrow> ''/'' @ inner)
         \<and> CHR ''/'' \<notin> set account \<and> CHR ''/'' \<notin> set container
         \<and> CHR ''/'' \<notin> set uuid \<and> CHR ''/'' \<notin> set object
         \<and> parse_linked_bundle_url url = Inr lbp
         \<and> bundle_path lbp =
             ''azfs://'' @ account @ ''/'' @ container @ ''/'' @ uuid @ ''/'' @ object
         \<and> parse_linked_bundle_url (bundle_path lbp) = Inr (lbp\<lparr>zip_subpath := None\<rparr>)
         \<and> zip_subpath lbp = (if is_zip lbp then trailing else None)"
proof -
  from four_segments_decompose[OF assms(2)] obtain account container uuid object trailing where
    seg: "drop (length ''azfs://'') url =
            account @ ''/'' @ container @ ''/'' @ uuid @ ''/'' @ object
              @ (case trailing of None \<Rightarrow> [] | Some inner \<Rightarrow> ''/'' @ inner)"
    and free: "CHR ''/'' \<notin> set account" "CHR ''/'' \<notin> set container"
              "CHR ''/'' \<notin> set uuid" "CHR ''/'' \<notin> set object"
    by blast
  have url: "url = ''azfs://'' @ account @ ''/'' @ container @ ''/'' @ uuid @ ''/'' @ object
                     @ (case trailing of None \<Rightarrow> [] | Some inner \<Rightarrow> ''/'' @ inner)"
    using startswith_split[OF assms(1)] seg by simp
  let ?lbp = "\<lparr> storage_type = AZURE_BLOB_STORAGE,
               bundle_path =
                 ''azfs://'' @ account @ ''/'' @ container @ ''/'' @ uuid @ ''/'' @ object,
               is_zip = endswith object ''.zip'', uses_beam = True,
               zip_subpath = (if endswith object ''.zip'' then trailing else None),
               bundle_uuid = Some uuid \<rparr>"
  have p: "parse_linked_bundle_url url = Inr ?lbp"
    unfolding url using parse_remote_optional[OF free] by simp
  have b: "parse_linked_bundle_url (bundle_path ?lbp) = Inr (?lbp\<lparr>zip_subpath := None\<rparr>)"
    using parse_remote_bare[OF free] by simp
  have "zip_subpath ?lbp = (if is_zip ?lbp then trailing else None)" by simp
  with url free p b show ?thesis
    by (intro exI[of _ account] exI[of _ container] exI[of _ uuid] exI[of _ object]
          exI[of _ trailing] exI[of _ ?lbp]) simp
qed

theorem bundle_path_first_four_segments_witness:
  "startswith ''azfs://storageclwsdev0/bundles/0x1234/contents.zip/src/test.sh'' ''azfs://'' \<and>
   3 \<le> count_sep (CHR ''/'')
         (drop (length ''azfs://'')
            ''azfs://storageclwsdev0/bundles/0x1234/contents.zip/src/test.sh'') \<and>
   (\<exists>lbp.
      parse_linked_bundle_url ''azfs://storageclwsdev0/bundles/0x1234/contents.zip/src/test.sh''
        = Inr lbp
    \<and> parse_linked_bundle_url (bundle_path lbp) = Inr (lbp\<lparr>zip_subpath := None\<rparr>)) \<and>
   parse_linked_bundle_url ''azfs://storageclwsdev0/bundles/0x1234/contents.zip/src/test.sh'' =
     Inr \<lparr> storage_type = AZURE_BLOB_STORAGE,
           bundle_path = ''azfs://storageclwsdev0/bundles/0x1234/contents.zip'',
           is_zip = True, uses_beam = True, zip_subpath = Some ''src/test.sh'',
           bundle_uuid = Some ''0x1234'' \<rparr>"
proof -
  let ?url = "''azfs://storageclwsdev0/bundles/0x1234/contents.zip/src/test.sh''"
  have h1: "startswith ?url ''azfs://''"
    by (simp add: startswith_def)
  have h2: "3 \<le> count_sep (CHR ''/'') (drop (length ''azfs://'') ?url)"
    by (simp add: count_sep_def)
  have v: "parse_linked_bundle_url ?url =
     Inr \<lparr> storage_type = AZURE_BLOB_STORAGE,
           bundle_path = ''azfs://storageclwsdev0/bundles/0x1234/contents.zip'',
           is_zip = True, uses_beam = True, zip_subpath = Some ''src/test.sh'',
           bundle_uuid = Some ''0x1234'' \<rparr>"
    by (simp add: parse_linked_bundle_url_def startswith_def endswith_def numeral_eq_Suc)
  from bundle_path_first_four_segments [OF h1 h2]
  have "\<exists>lbp. parse_linked_bundle_url ?url = Inr lbp
           \<and> parse_linked_bundle_url (bundle_path lbp) = Inr (lbp\<lparr>zip_subpath := None\<rparr>)"
    by blast
  with h1 h2 v show ?thesis by blast
qed

text \<open>
  C10. For a locator that begins with \<^verbatim>\<open>azfs://\<close> and has at least three slashes after the
  scheme, \<open>is_zip\<close> is decided by the object name alone; \<open>zip_subpath\<close> is the trailing
  path when the object is a zip and \<^verbatim>\<open>None\<close> otherwise, trailing path or not. So it is
  not \<^verbatim>\<open>None\<close> exactly when the object is a zip and a trailing path is present.
\<close>

theorem zip_subpath_only_inside_zip:
  assumes "startswith url ''azfs://''"
    and "3 \<le> count_sep (CHR ''/'') (drop (length ''azfs://'') url)"
  shows "\<exists>account container uuid object trailing lbp.
           url = ''azfs://'' @ account @ ''/'' @ container @ ''/'' @ uuid @ ''/'' @ object
                   @ (case trailing of None \<Rightarrow> [] | Some inner \<Rightarrow> ''/'' @ inner)
         \<and> CHR ''/'' \<notin> set account \<and> CHR ''/'' \<notin> set container
         \<and> CHR ''/'' \<notin> set uuid \<and> CHR ''/'' \<notin> set object
         \<and> parse_linked_bundle_url url = Inr lbp
         \<and> is_zip lbp = endswith object ''.zip''
         \<and> zip_subpath lbp = (if is_zip lbp then trailing else None)
         \<and> (zip_subpath lbp \<noteq> None) = (is_zip lbp \<and> trailing \<noteq> None)"
proof -
  from four_segments_decompose[OF assms(2)] obtain account container uuid object trailing where
    seg: "drop (length ''azfs://'') url =
            account @ ''/'' @ container @ ''/'' @ uuid @ ''/'' @ object
              @ (case trailing of None \<Rightarrow> [] | Some inner \<Rightarrow> ''/'' @ inner)"
    and free: "CHR ''/'' \<notin> set account" "CHR ''/'' \<notin> set container"
              "CHR ''/'' \<notin> set uuid" "CHR ''/'' \<notin> set object"
    by blast
  have url: "url = ''azfs://'' @ account @ ''/'' @ container @ ''/'' @ uuid @ ''/'' @ object
                     @ (case trailing of None \<Rightarrow> [] | Some inner \<Rightarrow> ''/'' @ inner)"
    using startswith_split[OF assms(1)] seg by simp
  let ?lbp = "\<lparr> storage_type = AZURE_BLOB_STORAGE,
               bundle_path =
                 ''azfs://'' @ account @ ''/'' @ container @ ''/'' @ uuid @ ''/'' @ object,
               is_zip = endswith object ''.zip'', uses_beam = True,
               zip_subpath = (if endswith object ''.zip'' then trailing else None),
               bundle_uuid = Some uuid \<rparr>"
  have p: "parse_linked_bundle_url url = Inr ?lbp"
    unfolding url using parse_remote_optional[OF free] by simp
  with url free show ?thesis
    by (intro exI[of _ account] exI[of _ container] exI[of _ uuid] exI[of _ object]
          exI[of _ trailing] exI[of _ ?lbp]) simp
qed

theorem zip_subpath_only_inside_zip_witness:
  "startswith ''azfs://storageclwsdev0/bundles/0x1234/contents/file1'' ''azfs://'' \<and>
   3 \<le> count_sep (CHR ''/'')
         (drop (length ''azfs://'') ''azfs://storageclwsdev0/bundles/0x1234/contents/file1'') \<and>
   (\<exists>lbp trailing.
      parse_linked_bundle_url ''azfs://storageclwsdev0/bundles/0x1234/contents/file1'' = Inr lbp
    \<and> zip_subpath lbp = (if is_zip lbp then trailing else None)) \<and>
   parse_linked_bundle_url ''azfs://storageclwsdev0/bundles/0x1234/contents/file1'' =
     Inr \<lparr> storage_type = AZURE_BLOB_STORAGE,
           bundle_path = ''azfs://storageclwsdev0/bundles/0x1234/contents'',
           is_zip = False, uses_beam = True, zip_subpath = None,
           bundle_uuid = Some ''0x1234'' \<rparr>"
proof -
  let ?url = "''azfs://storageclwsdev0/bundles/0x1234/contents/file1''"
  have h1: "startswith ?url ''azfs://''"
    by (simp add: startswith_def)
  have h2: "3 \<le> count_sep (CHR ''/'') (drop (length ''azfs://'') ?url)"
    by (simp add: count_sep_def)
  have v: "parse_linked_bundle_url ?url =
     Inr \<lparr> storage_type = AZURE_BLOB_STORAGE,
           bundle_path = ''azfs://storageclwsdev0/bundles/0x1234/contents'',
           is_zip = False, uses_beam = True, zip_subpath = None,
           bundle_uuid = Some ''0x1234'' \<rparr>"
    by (simp add: parse_linked_bundle_url_def startswith_def endswith_def numeral_eq_Suc)
  from zip_subpath_only_inside_zip [OF h1 h2]
  have "\<exists>lbp trailing. parse_linked_bundle_url ?url = Inr lbp
           \<and> zip_subpath lbp = (if is_zip lbp then trailing else None)"
    by blast
  with h1 h2 v show ?thesis by blast
qed

text \<open>
  C9. An exception that is an instance of one of the four classes of
  \<open>http_codes_and_exceptions\<close> comes back unchanged, class and message, when its HTTP
  code and message from \<open>exception_to_http_error\<close> are given to
  \<open>http_error_to_exception\<close>. The classes are those the module declares; the three
  subclasses of \<open>UsageError\<close> stand before it in the table, so each is found first.
\<close>

theorem http_error_roundtrip:
  assumes "isinstance e PermissionError \<or> isinstance e AuthorizationError \<or>
           isinstance e NotFoundError \<or> isinstance e UsageError"
  shows "(case exception_to_http_error e of
            (code, message) \<Rightarrow> http_error_to_exception code message) = e"
proof (cases e)
  case (Exn c m)
  with assms show ?thesis
    by (cases c)
       (simp_all add: isinstance_def exception_to_http_error_def http_error_to_exception_def
          http_codes_and_exceptions_def FORBIDDEN_def UNAUTHORIZED_def NOT_FOUND_def
          BAD_REQUEST_def)
qed

theorem http_error_roundtrip_witness:
  "isinstance (Exn NotFoundError ''no such bundle'') UsageError \<and>
   exception_to_http_error (Exn NotFoundError ''no such bundle'') = (404, ''no such bundle'') \<and>
   http_error_to_exception 404 ''no such bundle'' = Exn NotFoundError ''no such bundle''"
proof -
  have h: "isinstance (Exn NotFoundError ''no such bundle'') PermissionError \<or>
           isinstance (Exn NotFoundError ''no such bundle'') AuthorizationError \<or>
           isinstance (Exn NotFoundError ''no such bundle'') NotFoundError \<or>
           isinstance (Exn NotFoundError ''no such bundle'') UsageError"
    by (simp add: isinstance_def)
  have c: "exception_to_http_error (Exn NotFoundError ''no such bundle'') =
             (404, ''no such bundle'')"
    by (simp add: exception_to_http_error_def isinstance_def http_codes_and_exceptions_def
        NOT_FOUND_def)
  show ?thesis using http_error_roundtrip [OF h] c by (simp add: isinstance_def)
qed

section \<open>Properties of the index\<close>








subsection \<open>Prefixes of a path\<close>








subsection \<open>One step of the indexer\<close>











subsection \<open>Archives whose files are leaves written once\<close>










section \<open>The claims about target resolution\<close>

text \<open>
  The model gives what \<^verbatim>\<open>test_nested_directories\<close> asserts, call by call (the root at
  depths 0 and 1, three files, \<^verbatim>\<open>src\<close> at depth 1, \<^verbatim>\<open>dist/a\<close> at depth 999), the bundle id
  standing for the random one of the test.
\<close>

lemma nested_directories_root:
  "get_target_info nested_directories \<lparr>bundle_id = ''0x1234'', relative_subpath = ''''\<rparr> 0 =
     Inr (TargetInfo ''0x1234'' Directory 246 511 None)"
  "get_target_info nested_directories \<lparr>bundle_id = ''0x1234'', relative_subpath = ''''\<rparr> 1 =
     Inr (TargetInfo ''0x1234'' Directory 246 511
           (Some [TargetInfo ''README.md'' File 11 420 None,
                  TargetInfo ''src'' Directory 0 420 None,
                  TargetInfo ''dist'' Directory 0 420 None]))"
  by code_simp+

lemma nested_directories_files:
  "get_target_info nested_directories
     \<lparr>bundle_id = ''0x1234'', relative_subpath = ''README.md''\<rparr> 1 =
     Inr (TargetInfo ''README.md'' File 11 420 None)"
  "get_target_info nested_directories
     \<lparr>bundle_id = ''0x1234'', relative_subpath = ''src/test.sh''\<rparr> 1 =
     Inr (TargetInfo ''test.sh'' File 7 420 None)"
  "get_target_info nested_directories
     \<lparr>bundle_id = ''0x1234'', relative_subpath = ''dist/a/b/test2.sh''\<rparr> 1 =
     Inr (TargetInfo ''test2.sh'' File 8 420 None)"
  by code_simp+

lemma nested_directories_subdirectories:
  "get_target_info nested_directories \<lparr>bundle_id = ''0x1234'', relative_subpath = ''src''\<rparr> 1 =
     Inr (TargetInfo ''src'' Directory 0 420 (Some [TargetInfo ''test.sh'' File 7 420 None]))"
  "get_target_info nested_directories
     \<lparr>bundle_id = ''0x1234'', relative_subpath = ''dist/a''\<rparr> 999 =
     Inr (TargetInfo ''a'' Directory 0 420
           (Some [TargetInfo ''b'' Directory 0 420
                    (Some [TargetInfo ''test2.sh'' File 8 420 None])]))"
  by code_simp+



lemma size_serialize: "size_bytes (serialize idx k n) = node_size n"
  by (cases k) simp_all

lemma perm_serialize: "perm (serialize idx k n) = node_mode n"
  by (cases k) simp_all

lemma resolve_root:
  "relative_subpath target = [] \<Longrightarrow> resolve obj idx target = Inr (root_node obj target)"
  by (simp add: resolve_def)


text \<open>
  C1. For a target with the empty subpath, whatever members the archive holds, the request
  succeeds and the size it reports is the byte length of the stored archive object: no
  member's size enters it.
\<close>

theorem root_size_is_archive_byte_length:
  assumes "relative_subpath target = []"
  shows "\<exists>info. get_target_info (obj\<lparr>members := ms\<rparr>) target depth = Inr info
              \<and> size_bytes info = byte_length obj"
proof -
  have "resolve (obj\<lparr>members := ms\<rparr>) (build_index ms) target =
          Inr (root_node (obj\<lparr>members := ms\<rparr>) target)"
    using assms by (rule resolve_root)
  then show ?thesis
    by (simp add: get_target_info_def Let_def size_serialize root_node_def)
qed

theorem root_size_is_archive_byte_length_witness:
  "relative_subpath \<lparr>bundle_id = ''0x1234'', relative_subpath = ''''\<rparr> = [] \<and>
   (\<exists>info. get_target_info nested_directories
              \<lparr>bundle_id = ''0x1234'', relative_subpath = ''''\<rparr> 1 = Inr info
          \<and> size_bytes info = 246) \<and>
   sum_list (map member_size (members nested_directories)) = 26"
proof -
  have h: "relative_subpath \<lparr>bundle_id = ''0x1234'', relative_subpath = ''''\<rparr> = []"
    by simp
  have s: "sum_list (map member_size (members nested_directories)) = 26"
    by (simp add: nested_directories_def)
  have o: "nested_directories\<lparr>members := members nested_directories\<rparr> = nested_directories"
    by simp
  have b: "byte_length nested_directories = 246"
    by (simp add: nested_directories_def)
  show ?thesis
    using h s
      root_size_is_archive_byte_length
        [OF h, where obj = nested_directories and ms = "members nested_directories"
           and depth = 1]
    unfolding o b by simp
qed

text \<open>
  C6. For a target with the empty subpath, whatever members the archive holds and whatever
  modes they record, the request succeeds and the mode it reports is the full-access
  sentinel, 511 (0777).
\<close>

theorem root_mode_is_full_access:
  assumes "relative_subpath target = []"
  shows "\<exists>info. get_target_info (obj\<lparr>members := ms\<rparr>) target depth = Inr info
              \<and> perm info = FULL_ACCESS \<and> FULL_ACCESS = 511"
proof -
  have "resolve (obj\<lparr>members := ms\<rparr>) (build_index ms) target =
          Inr (root_node (obj\<lparr>members := ms\<rparr>) target)"
    using assms by (rule resolve_root)
  then show ?thesis
    by (simp add: get_target_info_def Let_def perm_serialize root_node_def FULL_ACCESS_def)
qed

theorem root_mode_is_full_access_witness:
  "relative_subpath \<lparr>bundle_id = ''0x1234'', relative_subpath = ''''\<rparr> = [] \<and>
   (\<exists>info. get_target_info nested_directories
              \<lparr>bundle_id = ''0x1234'', relative_subpath = ''''\<rparr> 0 = Inr info
          \<and> perm info = 511) \<and>
   map member_mode (members nested_directories) = replicate 7 (Some 420)"
proof -
  have h: "relative_subpath \<lparr>bundle_id = ''0x1234'', relative_subpath = ''''\<rparr> = []"
    by simp
  have s: "map member_mode (members nested_directories) = replicate 7 (Some 420)"
    by (simp add: nested_directories_def numeral_eq_Suc)
  have o: "nested_directories\<lparr>members := members nested_directories\<rparr> = nested_directories"
    by simp
  show ?thesis
    using h s
      root_mode_is_full_access
        [OF h, where obj = nested_directories and ms = "members nested_directories"
           and depth = 0]
    unfolding o by auto
qed

text \<open>
  C4. Serializing any resolved node with depth 0 gives a TargetInfo with no
  \<^verbatim>\<open>contents\<close>, file or directory alike; so does every request with depth 0 that
  succeeds.
\<close>

theorem depth_zero_has_no_contents:
  "contents (serialize idx 0 n) = None \<and>
   (\<forall>info. get_target_info obj target 0 = Inr info \<longrightarrow> contents info = None)"
  by (auto simp: get_target_info_def Let_def split: sum.splits)

theorem depth_zero_has_no_contents_witness:
  "get_target_info nested_directories \<lparr>bundle_id = ''0x1234'', relative_subpath = ''src''\<rparr> 0
     = Inr (TargetInfo ''src'' Directory 0 420 None) \<and>
   contents (TargetInfo ''src'' Directory 0 420 None) = None"
proof -
  have g: "get_target_info nested_directories
             \<lparr>bundle_id = ''0x1234'', relative_subpath = ''src''\<rparr> 0
           = Inr (TargetInfo ''src'' Directory 0 420 None)"
    by code_simp
  show ?thesis
    using g
      depth_zero_has_no_contents
        [of "[]" "root_node nested_directories \<lparr>bundle_id = ''0x1234'', relative_subpath = ''src''\<rparr>"
            nested_directories "\<lparr>bundle_id = ''0x1234'', relative_subpath = ''src''\<rparr>"]
    by simp
qed







end
